theory Spec2Isabelle
  imports Main
begin

section \<open>Strings\<close>

text \<open>
  Python strings are modelled as \<open>string\<close>. \<open>str.lower\<close>, \<open>str.capitalize\<close>, the
  substring test \<open>x in msg\<close> and \<open>str.endswith\<close> are written out for the ASCII range, which
  covers every literal the module compares against.
\<close>

definition lower_char :: "char \<Rightarrow> char" where
  "lower_char c =
     (case map_of (zip ''ABCDEFGHIJKLMNOPQRSTUVWXYZ'' ''abcdefghijklmnopqrstuvwxyz'') c of
        None \<Rightarrow> c | Some d \<Rightarrow> d)"

definition upper_char :: "char \<Rightarrow> char" where
  "upper_char c =
     (case map_of (zip ''abcdefghijklmnopqrstuvwxyz'' ''ABCDEFGHIJKLMNOPQRSTUVWXYZ'') c of
        None \<Rightarrow> c | Some d \<Rightarrow> d)"

definition lower :: "string \<Rightarrow> string" where
  "lower s = map lower_char s"

text \<open>\<open>str.capitalize\<close>: first character upper-cased, all the others lower-cased.\<close>

fun capitalize :: "string \<Rightarrow> string" where
  "capitalize [] = []"
| "capitalize (c # cs) = upper_char c # lower cs"

fun startswith :: "string \<Rightarrow> string \<Rightarrow> bool" where
  "startswith s [] = True"
| "startswith [] (p # ps) = False"
| "startswith (c # cs) (p # ps) = (c = p \<and> startswith cs ps)"

text \<open>\<open>contains msg x\<close> is Python's \<open>x in msg\<close> on strings.\<close>

fun contains :: "string \<Rightarrow> string \<Rightarrow> bool" where
  "contains [] x = (x = [])"
| "contains (c # cs) x = (startswith (c # cs) x \<or> contains cs x)"

definition endswith :: "string \<Rightarrow> string \<Rightarrow> bool" where
  "endswith s suf = startswith (rev s) (rev suf)"


section \<open>Exceptions, chat effects and the inference service\<close>

text \<open>
  Only classes derived from \<open>Exception\<close> are modelled; the handler distinguishes
  \<open>ValueError\<close> from every other class. The argument is the message, \<open>str(e)\<close>.
\<close>

datatype exn = ValueError string | UnboundLocalError string | OtherException string

fun str :: "exn \<Rightarrow> string" where
  "str (ValueError m) = m"
| "str (UnboundLocalError m) = m"
| "str (OtherException m) = m"

text \<open>
  Reading a local variable that is not bound raises \<open>UnboundLocalError\<close>. In Python 3 the
  name of \<open>except ... as e\<close> is deleted when its clause is left.
\<close>

definition unbound_local :: "string \<Rightarrow> exn" where
  "unbound_local v =
     UnboundLocalError (''cannot access local variable '' @ [CHR 0x27] @ v @ [CHR 0x27]
                        @ '' where it is not associated with a value'')"

datatype parse_mode = MARKDOWN

datatype gen_config = COOK_GEN_CONFIG

text \<open>Attribute lookup with \<open>getattr\<close>: the attribute is missing, is \<open>None\<close>, or has a value.\<close>

datatype 'a attr = Absent | PyNone | Value 'a

datatype response = Response (candidates: "string list attr") (resp_text: "string attr")

datatype uploaded_file = UploadedFile (name: string) (state_name: string)

datatype image = Image string

datatype part = Text string | DecodedImage image | Handle uploaded_file

text \<open>What the handler does to the outside world, in order.\<close>

datatype event =
    EditText string "parse_mode option"
  | ReplyText string "parse_mode option"
  | Delete
  | Download
  | Sleep nat
  | UploadFile string
  | GetFile string
  | ImageOpen string
  | ImageVerify
  | GenerateContent "part list" "gen_config option"
  | Remove string

datatype outcome = Returns response | Raises exn


section \<open>The inference invoker (lines 83 to 106)\<close>

text \<open>Line 96: the message names an unsupported MIME type.\<close>

definition unsupported_mime :: "string \<Rightarrow> bool" where
  "unsupported_mime msg = (contains msg ''mimetype parameter'' \<and> contains msg ''not supported'')"

text \<open>Line 101: the message carries a transient signature.\<close>

definition transient :: "string \<Rightarrow> bool" where
  "transient msg = list_ex (\<lambda>x. contains msg x) [''403'', ''429'', ''permission'', ''quota'']"

text \<open>Line 87: \<open>not getattr(response, "candidates", [])\<close>.\<close>

fun no_candidates :: "response \<Rightarrow> bool" where
  "no_candidates (Response Absent t) = True"
| "no_candidates (Response PyNone t) = True"
| "no_candidates (Response (Value cs) t) = (cs = [])"

text \<open>
  How the \<open>for\<close> statement is left: by \<open>break\<close> with the response bound, by a \<open>return\<close>
  inside the body, or by an exception.
\<close>

datatype loop_exit = Break response | Return | Raise exn

text \<open>
  The loop over the remaining iterations. \<open>gen i\<close> is what the call of iteration \<open>i\<close>
  does. \<open>e\<close> is the local variable \<open>e\<close>: bound inside the \<open>except\<close> clause, deleted when
  the clause is left, and read by \<open>raise e\<close> in the \<open>else\<close> branch of the \<open>for\<close>.
\<close>

fun attempts ::
  "(nat \<Rightarrow> outcome) \<Rightarrow> part list \<Rightarrow> gen_config option \<Rightarrow> string option
     \<Rightarrow> exn option \<Rightarrow> nat list \<Rightarrow> loop_exit \<times> event list" where
  "attempts gen input_data cfg expect_type e [] =
     (case e of None \<Rightarrow> (Raise (unbound_local ''e''), [])
              | Some x \<Rightarrow> (Raise x, []))"
| "attempts gen input_data cfg expect_type e (i # is) =
     (case gen i of
        Returns response \<Rightarrow>
          if no_candidates response
          then (Return, [GenerateContent input_data cfg,
                         EditText ''Could not generate response.'' None])
          else (Break response, [GenerateContent input_data cfg])
      | Raises ex \<Rightarrow>
          (let e = Some ex; msg = lower (str ex) in
           if unsupported_mime msg then
             (if expect_type = None
              then (Return, [GenerateContent input_data cfg,
                             EditText ''Invalid file type. Please try again.'' None])
              else (Raise ex, [GenerateContent input_data cfg]))
           else if transient msg then
             (let e = None;
                  (r, evs) = attempts gen input_data cfg expect_type e is
              in (r, GenerateContent input_data cfg # Sleep 2 # evs))
           else (Raise ex, [GenerateContent input_data cfg])))"

text \<open>\<open>for _ in range(3)\<close>, entered with \<open>e\<close> unbound.\<close>

definition invoke ::
  "(nat \<Rightarrow> outcome) \<Rightarrow> part list \<Rightarrow> gen_config option \<Rightarrow> string option
     \<Rightarrow> loop_exit \<times> event list" where
  "invoke gen input_data cfg expect_type =
     attempts gen input_data cfg expect_type None [0..<3]"

fun is_generate :: "event \<Rightarrow> bool" where
  "is_generate (GenerateContent i c) = True"
| "is_generate _ = False"


section \<open>The attachment classifier (lines 19 to 31)\<close>

text \<open>
  The referenced message. Each attachment attribute holds an object or \<open>None\<close>; an
  attachment object is always truthy.
\<close>

datatype media = Media string

record replied =
  photo :: "media option"
  audio :: "media option"
  voice :: "media option"
  video :: "media option"
  video_note :: "media option"
  document :: "media option"

text \<open>
  \<open>_valid_file\<close>. The result is the truth value of what the function returns, which is
  all its caller looks at (\<open>if not _valid_file(...)\<close>).
\<close>

definition valid_file :: "replied \<Rightarrow> string option \<Rightarrow> bool" where
  "valid_file reply file_type =
     (if file_type = Some ''image'' then photo reply \<noteq> None
      else if file_type = Some ''audio'' \<or> file_type = Some ''video''
      then list_ex (\<lambda>attr. attr reply \<noteq> None) [audio, voice, video, video_note]
      else (photo reply \<noteq> None \<or> audio reply \<noteq> None \<or> voice reply \<noteq> None
            \<or> video reply \<noteq> None \<or> video_note reply \<noteq> None \<or> document reply \<noteq> None))"


section \<open>The outside world\<close>

text \<open>
  Everything the module calls and does not define is a field of \<open>world\<close>:
  \<open>utils.misc.prefix\<close>, \<open>utils.scripts.format_exc\<close>, \<open>reply.download()\<close> (the path it
  returns and the files on disk afterwards), \<open>Image.open\<close> and \<open>img.verify()\<close>,
  \<open>genai.upload_file\<close>, \<open>genai.get_file\<close> (the file object the \<open>n\<close>-th poll gets),
  \<open>model.generate_content\<close> (what the \<open>n\<close>-th call does) and \<open>os.remove\<close>. The chat
  operations \<open>edit_text\<close>, \<open>reply_text\<close> and \<open>delete\<close> are taken to complete.
\<close>

record world =
  prefix :: string
  format_exc :: "exn \<Rightarrow> string"
  download :: "string set \<Rightarrow> string option \<times> string set"
  Image_open :: "string \<Rightarrow> exn + image"
  verify :: "image \<Rightarrow> exn option"
  genai_upload_file :: "string \<Rightarrow> uploaded_file"
  genai_get_file :: "nat \<Rightarrow> uploaded_file"
  generate_content :: "nat \<Rightarrow> outcome"
  os_remove :: "string \<Rightarrow> exn option"


section \<open>Upload and poll (lines 33 to 40)\<close>

text \<open>
  The \<open>while\<close> loop of \<open>_upload_file\<close>. It has no bound in the source, so it is a partial
  function: \<open>None\<close> is a run that polls forever. \<open>n\<close> counts the polls made so far and
  \<open>evs\<close> collects the effects.
\<close>

partial_function (option) poll ::
  "(nat \<Rightarrow> uploaded_file) \<Rightarrow> nat \<Rightarrow> uploaded_file \<Rightarrow> event list
     \<Rightarrow> (uploaded_file \<times> event list) option" where
  "poll get_file n uploaded evs =
     (if state_name uploaded = ''PROCESSING''
      then poll get_file (Suc n) (get_file n) (evs @ [Sleep 5, GetFile (name uploaded)])
      else Some (uploaded, evs))"

definition upload_file ::
  "world \<Rightarrow> string \<Rightarrow> string \<Rightarrow> ((exn + uploaded_file) \<times> event list) option" where
  "upload_file w file_path file_type =
     (case poll (genai_get_file w) 0 (genai_upload_file w file_path) [UploadFile file_path] of
        None \<Rightarrow> None
      | Some (uploaded, evs) \<Rightarrow>
          if state_name uploaded = ''FAILED''
          then Some (Inl (ValueError (capitalize file_type @ '' failed to process'')), evs)
          else Some (Inr uploaded, evs))"


section \<open>The input materializer (lines 42 to 55)\<close>

text \<open>\<open>[..., await _upload_file(...), ...]\<close>: the list is built once the upload has returned.\<close>

fun with_handle ::
  "(uploaded_file \<Rightarrow> part list) \<Rightarrow> ((exn + uploaded_file) \<times> event list) option
     \<Rightarrow> ((exn + part list) \<times> event list) option" where
  "with_handle f None = None"
| "with_handle f (Some (Inl ex, evs)) = Some (Inl ex, evs)"
| "with_handle f (Some (Inr h, evs)) = Some (Inr (f h), evs)"

definition prepare_input_data ::
  "world \<Rightarrow> replied \<Rightarrow> string \<Rightarrow> string \<Rightarrow> ((exn + part list) \<times> event list) option" where
  "prepare_input_data w reply file_path prompt =
     (if photo reply \<noteq> None then
        (case Image_open w file_path of
           Inl ex \<Rightarrow> Some (Inl ex, [ImageOpen file_path])
         | Inr img \<Rightarrow>
             (case verify w img of
                Some ex \<Rightarrow> Some (Inl ex, [ImageOpen file_path, ImageVerify])
              | None \<Rightarrow> Some (Inr [Text prompt, DecodedImage img],
                              [ImageOpen file_path, ImageVerify, ImageOpen file_path])))
      else if video reply \<noteq> None \<or> video_note reply \<noteq> None then
        with_handle (\<lambda>h. [Text prompt, Handle h]) (upload_file w file_path ''video'')
      else if audio reply \<noteq> None \<or> voice reply \<noteq> None then
        with_handle (\<lambda>h. [Handle h, Text prompt]) (upload_file w file_path ''audio'')
      else if document reply \<noteq> None \<and> endswith file_path ''.pdf'' then
        with_handle (\<lambda>h. [Text prompt, Handle h]) (upload_file w file_path ''PDF'')
      else if document reply \<noteq> None then
        with_handle (\<lambda>h. [Handle h, Text prompt]) (upload_file w file_path ''document'')
      else Some (Inl (ValueError ''Unsupported file type''), []))"


section \<open>The reply (lines 108 to 116)\<close>

text \<open>
  \<open>getattr(response, 'text', '') or 'No content generated.'\<close>: the default is taken when
  the attribute is missing, \<open>None\<close> or the empty string.
\<close>

fun answer :: "response \<Rightarrow> string" where
  "answer (Response c (Value t)) = (if t = [] then ''No content generated.'' else t)"
| "answer (Response c Absent) = ''No content generated.''"
| "answer (Response c PyNone) = ''No content generated.''"

definition result_text :: "string \<Rightarrow> bool \<Rightarrow> response \<Rightarrow> string" where
  "result_text prompt show_prompt response =
     (if show_prompt then ''Prompt: '' @ prompt @ [CHR 0x0A] else []) @ ''Answer: '' @ answer response"

text \<open>\<open>range(start, stop, step)\<close> for a positive step; Python raises on step 0.\<close>

function range_step :: "nat \<Rightarrow> nat \<Rightarrow> nat \<Rightarrow> nat list" where
  "range_step start stop step =
     (if step = 0 \<or> stop \<le> start then [] else start # range_step (start + step) stop step)"
  by pat_completeness auto
termination
  by (relation "measure (\<lambda>(start, stop, step). stop - start)") auto

declare range_step.simps [simp del]

text \<open>The slice \<open>s[i:j]\<close> for \<open>0 \<le> i \<le> j\<close>; it stops at the end of \<open>s\<close>.\<close>

definition slice :: "string \<Rightarrow> nat \<Rightarrow> nat \<Rightarrow> string" where
  "slice s i j = take (j - i) (drop i s)"

definition chunks :: "string \<Rightarrow> string list" where
  "chunks s = map (\<lambda>i. slice s i (i + 4000)) (range_step 0 (length s) 4000)"

definition send_result :: "string \<Rightarrow> event list" where
  "send_result text_out =
     (if length text_out > 4000
      then map (\<lambda>c. ReplyText c (Some MARKDOWN)) (chunks text_out) @ [Delete]
      else [EditText text_out (Some MARKDOWN)])"


section \<open>The handler (lines 57 to 129)\<close>

record message =
  reply_to_message :: "replied option"
  command :: "string list"

text \<open>The body of the \<open>try\<close> statement, lines 77 to 116.\<close>

definition try_body ::
  "world \<Rightarrow> replied \<Rightarrow> string \<Rightarrow> string \<Rightarrow> bool \<Rightarrow> bool \<Rightarrow> string option
     \<Rightarrow> ((exn + unit) \<times> event list) option" where
  "try_body w reply file_path prompt show_prompt cook_mode expect_type =
     (case prepare_input_data w reply file_path prompt of
        None \<Rightarrow> None
      | Some (Inl ex, evs) \<Rightarrow> Some (Inl ex, evs)
      | Some (Inr input_data, evs) \<Rightarrow>
          (case invoke (generate_content w) input_data
                  (if cook_mode then Some COOK_GEN_CONFIG else None) expect_type of
             (Raise ex, evs') \<Rightarrow> Some (Inl ex, evs @ evs')
           | (Return, evs') \<Rightarrow> Some (Inr (), evs @ evs')
           | (Break response, evs') \<Rightarrow>
               Some (Inr (), evs @ evs' @ send_result (result_text prompt show_prompt response))))"

text \<open>The two \<open>except\<close> clauses, lines 118 to 122.\<close>

fun handlers :: "world \<Rightarrow> exn + unit \<Rightarrow> (exn + unit) \<times> event list" where
  "handlers w (Inr u) = (Inr u, [])"
| "handlers w (Inl (ValueError m)) = (Inr (), [EditText m None])"
| "handlers w (Inl ex) = (Inr (), [EditText (''Error: '' @ format_exc w ex) None])"

text \<open>
  The \<open>finally\<close> clause, lines 124 to 129, on the set of files on disk. An exception of
  \<open>os.remove\<close> leaves the file and is dropped.
\<close>

definition cleanup :: "world \<Rightarrow> string \<Rightarrow> string set \<Rightarrow> event list \<times> string set" where
  "cleanup w file_path fs =
     (if file_path \<in> fs then
        (case os_remove w file_path of
           None \<Rightarrow> ([Remove file_path], fs - {file_path})
         | Some ex \<Rightarrow> ([Remove file_path], fs))
      else ([], fs))"

text \<open>Lines 76 to 129: \<open>try\<close>, \<open>except\<close>, \<open>finally\<close>.\<close>

definition guarded ::
  "world \<Rightarrow> replied \<Rightarrow> string \<Rightarrow> string set \<Rightarrow> string \<Rightarrow> bool \<Rightarrow> bool \<Rightarrow> string option
     \<Rightarrow> ((exn + unit) \<times> event list \<times> string set) option" where
  "guarded w reply file_path fs prompt show_prompt cook_mode expect_type =
     (case try_body w reply file_path prompt show_prompt cook_mode expect_type of
        None \<Rightarrow> None
      | Some (r, evs) \<Rightarrow>
          (let (r', evs') = handlers w r;
               (evs'', fs') = cleanup w file_path fs
           in Some (r', evs @ evs' @ evs'', fs')))"

text \<open>
  \<open>ai_process_handler\<close>, started with the files \<open>fs\<close> on disk. The result is how the
  coroutine ends, its effects in order, and the files on disk at the end; \<open>None\<close> is a run
  that never ends.
\<close>

definition ai_process_handler ::
  "world \<Rightarrow> string set \<Rightarrow> message \<Rightarrow> string \<Rightarrow> bool \<Rightarrow> bool \<Rightarrow> string option \<Rightarrow> string
     \<Rightarrow> ((exn + unit) \<times> event list \<times> string set) option" where
  "ai_process_handler w fs message prompt show_prompt cook_mode expect_type status_msg =
     (case reply_to_message message of
        None \<Rightarrow>
          (case command message of
             [] \<Rightarrow> Some (Inl (OtherException ''list index out of range''), [], fs)
           | c # cs \<Rightarrow>
               (let usage =
                  (case expect_type of
                     None \<Rightarrow> ''Usage: '' @ prefix w @ c @ '' [prompt] [Reply to a file]''
                   | Some t \<Rightarrow>
                       if t = [] then ''Usage: '' @ prefix w @ c @ '' [prompt] [Reply to a file]''
                       else ''Usage: '' @ prefix w @ c @ '' [custom prompt] [Reply to a '' @ t @ '']'')
                in Some (Inr (), [EditText usage None], fs)))
      | Some reply \<Rightarrow>
          if \<not> valid_file reply expect_type then
            (let type_text =
               (case expect_type of None \<Rightarrow> ''supported''
                | Some t \<Rightarrow> if t = [] then ''supported'' else t)
             in Some (Inr (), [EditText (''Invalid '' @ type_text @ '' file. Please try again.'') None], fs))
          else
            (case download w fs of
               (None, fs1) \<Rightarrow>
                 Some (Inr (), [EditText status_msg None, Download,
                                EditText ''Failed to process the file. Try again.'' None], fs1)
             | (Some file_path, fs1) \<Rightarrow>
                 if file_path = [] \<or> file_path \<notin> fs1 then
                   Some (Inr (), [EditText status_msg None, Download,
                                  EditText ''Failed to process the file. Try again.'' None], fs1)
                 else
                   (case guarded w reply file_path fs1 prompt show_prompt cook_mode expect_type of
                      None \<Rightarrow> None
                    | Some (r, evs, fs2) \<Rightarrow>
                        Some (r, [EditText status_msg None, Download] @ evs, fs2))))"


section \<open>Notions used in the statements\<close>

text \<open>A call outcome after which the loop sleeps and goes on: line 101 holds and line 96 does not.\<close>

definition retryable :: "outcome \<Rightarrow> bool" where
  "retryable out =
     (case out of Returns r \<Rightarrow> False
      | Raises ex \<Rightarrow> transient (lower (str ex)) \<and> \<not> unsupported_mime (lower (str ex)))"

text \<open>The first \<open>k\<close> calls were all of that kind.\<close>

definition retried :: "(nat \<Rightarrow> outcome) \<Rightarrow> nat \<Rightarrow> bool" where
  "retried gen k = list_all (\<lambda>j. retryable (gen j)) [0..<k]"

text \<open>The effects of \<open>k\<close> such iterations: a call, then two seconds of sleep, \<open>k\<close> times.\<close>

definition backoff :: "part list \<Rightarrow> gen_config option \<Rightarrow> nat \<Rightarrow> event list" where
  "backoff inp cfg k = concat (replicate k [GenerateContent inp cfg, Sleep 2])"

text \<open>A service that answers its calls from a list, and with \<open>d\<close> once the list is used up.\<close>

definition script :: "'a list \<Rightarrow> 'a \<Rightarrow> nat \<Rightarrow> 'a" where
  "script outs d n = (if n < length outs then outs ! n else d)"

definition quota_error :: exn where
  "quota_error = OtherException ''429 Quota exceeded''"

definition internal_error :: exn where
  "internal_error = OtherException ''500 Internal error''"

definition mime_error :: exn where
  "mime_error = OtherException ''400 The mimeType parameter application/zip is not supported''"

definition mime_403_error :: exn where
  "mime_403_error = OtherException ''403 The mimeType parameter application/zip is not supported''"

definition ok_response :: response where
  "ok_response = Response (Value [''candidate'']) (Value ''Hello'')"

definition empty_response :: response where
  "empty_response = Response (Value []) Absent"

text \<open>Referenced messages with one attachment, or none.\<close>

definition no_media :: replied where
  "no_media = \<lparr>photo = None, audio = None, voice = None, video = None, video_note = None,
               document = None\<rparr>"

definition photo_reply :: replied where
  "photo_reply = no_media\<lparr>photo := Some (Media ''photo-1'')\<rparr>"

definition video_note_reply :: replied where
  "video_note_reply = no_media\<lparr>video_note := Some (Media ''note-1'')\<rparr>"

definition voice_reply :: replied where
  "voice_reply = no_media\<lparr>voice := Some (Media ''voice-1'')\<rparr>"

definition document_reply :: replied where
  "document_reply = no_media\<lparr>document := Some (Media ''doc-1'')\<rparr>"

text \<open>
  A world for running the handler: the download writes the file it names, images verify,
  an upload is seen as \<open>PROCESSING\<close> twice and then in the state \<open>final\<close>, the model
  answers as \<open>gen\<close> says, and \<open>os.remove\<close> does what \<open>rm\<close> says.
\<close>

definition demo_world :: "string \<Rightarrow> string \<Rightarrow> (nat \<Rightarrow> outcome) \<Rightarrow> exn option \<Rightarrow> world" where
  "demo_world path final gen rm =
     \<lparr>prefix = ''.'',
      format_exc = str,
      download = (\<lambda>fs. (Some path, insert path fs)),
      Image_open = (\<lambda>p. Inr (Image p)),
      verify = (\<lambda>img. None),
      genai_upload_file = (\<lambda>p. UploadedFile ''files/abc'' ''PROCESSING''),
      genai_get_file = script [UploadedFile ''files/abc'' ''PROCESSING'']
                         (UploadedFile ''files/abc'' final),
      generate_content = gen,
      os_remove = (\<lambda>p. rm)\<rparr>"

text \<open>
  The file object \<open>_upload_file\<close> holds after \<open>n\<close> polls, and the effects of the first
  \<open>k\<close> polls.
\<close>

fun observed :: "world \<Rightarrow> string \<Rightarrow> nat \<Rightarrow> uploaded_file" where
  "observed w file_path 0 = genai_upload_file w file_path"
| "observed w file_path (Suc n) = genai_get_file w n"

definition polls :: "world \<Rightarrow> string \<Rightarrow> nat \<Rightarrow> nat \<Rightarrow> event list" where
  "polls w file_path n k =
     concat (map (\<lambda>j. [Sleep 5, GetFile (name (observed w file_path j))]) [n..<n + k])"

text \<open>A result text of 8500 characters.\<close>

definition long_text :: string where
  "long_text = replicate 8500 CHR ''x''"

text \<open>A response with a candidate whose \<open>text\<close> is \<open>None\<close>, and a command message.\<close>

definition silent_response :: response where
  "silent_response = Response (Value [''candidate'']) PyNone"

definition photo_message :: message where
  "photo_message = \<lparr>reply_to_message = Some photo_reply, command = [''process'']\<rparr>"

definition busy_error :: exn where
  "busy_error = OtherException ''[Errno 16] Device or resource busy''"


section \<open>The inference invoker: retries\<close>

lemma attempts_retryable:
  "retryable (gen i) \<Longrightarrow>
   attempts gen inp cfg et e (i # is) =
     (fst (attempts gen inp cfg et None is),
      GenerateContent inp cfg # Sleep 2 # snd (attempts gen inp cfg et None is))"
  by (auto simp: retryable_def split: outcome.splits prod.splits)

lemma attempts_prefix:
  "list_all (\<lambda>j. retryable (gen j)) js \<Longrightarrow>
   attempts gen inp cfg et None (js @ rest) =
     (fst (attempts gen inp cfg et None rest),
      concat (replicate (length js) [GenerateContent inp cfg, Sleep 2])
        @ snd (attempts gen inp cfg et None rest))"
  by (induction js) (simp_all add: attempts_retryable del: attempts.simps)

lemma count_attempts:
  "length (filter is_generate (snd (attempts gen inp cfg et e is))) \<le> length is"
  by (induction "is" arbitrary: e)
     (auto simp: Let_def split_def le_SucI split: outcome.splits option.splits)

lemma attempts_starts:
  "\<exists>evs. snd (attempts gen inp cfg et e (i # is)) = GenerateContent inp cfg # evs"
  by (auto simp: Let_def split_def split: outcome.splits)

lemma split_range: "k < 3 \<Longrightarrow> [0..<3] = [0..<k] @ k # [Suc k..<3]"
proof -
  assume "k < 3"
  then have "k = 0 \<or> k = 1 \<or> k = 2" by arith
  then show ?thesis by (auto simp: upt_rec)
qed

lemma invoke_after_retries:
  assumes "k < 3" and "retried gen k"
  shows "invoke gen inp cfg et =
           (fst (attempts gen inp cfg et None (k # [Suc k..<3])),
            backoff inp cfg k @ snd (attempts gen inp cfg et None (k # [Suc k..<3])))"
  using assms attempts_prefix [of gen "[0..<k]" inp cfg et "k # [Suc k..<3]"]
  by (simp add: invoke_def retried_def backoff_def split_range [symmetric])

lemma invoke_exhausted:
  assumes "retried gen 3"
  shows "invoke gen inp cfg et = (Raise (unbound_local ''e''), backoff inp cfg 3)"
  using assms attempts_prefix [of gen "[0..<3]" inp cfg et "[]"]
  by (simp add: invoke_def retried_def backoff_def)

lemma retried_0: "retried gen 0"
  by (simp add: retried_def)

lemma retried_Suc: "retried gen (Suc k) \<longleftrightarrow> retried gen k \<and> retryable (gen k)"
  by (auto simp: retried_def)

lemma retried_2: "retried gen 2 \<longleftrightarrow> retryable (gen 0) \<and> retryable (gen 1)"
  by (simp add: numeral_2_eq_2 retried_Suc retried_0)

lemma retried_3: "retried gen 3 \<longleftrightarrow> retryable (gen 0) \<and> retryable (gen 1) \<and> retryable (gen 2)"
  by (simp add: numeral_3_eq_3 retried_Suc retried_0 numeral_2_eq_2)

lemma backoff_unfold:
  "backoff inp cfg 0 = []"
  "backoff inp cfg (Suc k) = GenerateContent inp cfg # Sleep 2 # backoff inp cfg k"
  by (simp_all add: backoff_def)

lemma lower_literals:
  "lower (str quota_error) = ''429 quota exceeded''"
  "lower (str internal_error) = ''500 internal error''"
  "lower (str mime_error) = ''400 the mimetype parameter application/zip is not supported''"
  "lower (str mime_403_error) = ''403 the mimetype parameter application/zip is not supported''"
  by (simp_all add: quota_error_def internal_error_def mime_error_def mime_403_error_def
        lower_def lower_char_def)

lemma signatures:
  "transient ''429 quota exceeded''"
  "\<not> unsupported_mime ''429 quota exceeded''"
  "\<not> transient ''500 internal error''"
  "\<not> unsupported_mime ''500 internal error''"
  "\<not> transient ''400 the mimetype parameter application/zip is not supported''"
  "unsupported_mime ''400 the mimetype parameter application/zip is not supported''"
  "transient ''403 the mimetype parameter application/zip is not supported''"
  "unsupported_mime ''403 the mimetype parameter application/zip is not supported''"
  by (simp_all add: transient_def unsupported_mime_def)

lemma retryable_quota: "retryable (Raises quota_error)"
  by (simp add: retryable_def lower_literals signatures)

text \<open>
  C1, as the code has it. The loop makes at most three calls. After a call that raises an
  error whose lowercased message has a transient signature and is not an unsupported-MIME
  signature, all earlier calls having done the same, the effects so far are call and
  two-second sleep in turn, and unless that was the third call the next effect is a call.
  On (quota, quota, success) there are exactly three calls with a two-second sleep after
  the first and after the second, and the loop is left with the response. An error with
  neither signature is raised again at once, with no call after it.
\<close>

theorem invoke_retry_policy:
  "length (filter is_generate (snd (invoke gen inp cfg et))) \<le> 3
   \<and> (\<forall>k<3. retried gen (Suc k) \<longrightarrow>
         (\<exists>evs. snd (invoke gen inp cfg et) = backoff inp cfg (Suc k) @ evs
                \<and> (k < 2 \<longrightarrow> take 1 evs = [GenerateContent inp cfg])))
   \<and> (retryable (gen 0) \<and> retryable (gen 1) \<and> gen 2 = Returns r \<and> \<not> no_candidates r \<longrightarrow>
         invoke gen inp cfg et =
           (Break r, [GenerateContent inp cfg, Sleep 2, GenerateContent inp cfg, Sleep 2,
                      GenerateContent inp cfg]))
   \<and> (\<forall>k<3. retried gen k \<and> gen k = Raises ex \<and> \<not> transient (lower (str ex))
               \<and> \<not> unsupported_mime (lower (str ex)) \<longrightarrow>
         invoke gen inp cfg et = (Raise ex, backoff inp cfg k @ [GenerateContent inp cfg]))"
proof (intro conjI allI impI)
  show "length (filter is_generate (snd (invoke gen inp cfg et))) \<le> 3"
    using count_attempts [of gen inp cfg et None "[0..<3]"] by (simp add: invoke_def)
next
  fix k :: nat
  assume k: "k < 3" and r: "retried gen (Suc k)"
  show "\<exists>evs. snd (invoke gen inp cfg et) = backoff inp cfg (Suc k) @ evs
              \<and> (k < 2 \<longrightarrow> take 1 evs = [GenerateContent inp cfg])"
  proof (cases "k < 2")
    case True
    then have "Suc k < 3" by simp
    from invoke_after_retries [OF this r]
    have "snd (invoke gen inp cfg et) =
            backoff inp cfg (Suc k)
              @ snd (attempts gen inp cfg et None (Suc k # [Suc (Suc k)..<3]))"
      by simp
    moreover obtain evs' where
      "snd (attempts gen inp cfg et None (Suc k # [Suc (Suc k)..<3]))
         = GenerateContent inp cfg # evs'"
      using attempts_starts by blast
    ultimately show ?thesis by simp
  next
    case False
    with k have "Suc k = 3" by simp
    with r have "retried gen 3" by simp
    from invoke_exhausted [OF this] \<open>Suc k = 3\<close> False show ?thesis by simp
  qed
next
  assume a: "retryable (gen 0) \<and> retryable (gen 1) \<and> gen 2 = Returns r \<and> \<not> no_candidates r"
  then have "retried gen 2"
    by (simp add: retried_2)
  from invoke_after_retries [OF _ this, of inp cfg et] a
  show "invoke gen inp cfg et =
          (Break r, [GenerateContent inp cfg, Sleep 2, GenerateContent inp cfg, Sleep 2,
                     GenerateContent inp cfg])"
    by (simp add: backoff_def upt_rec numeral_2_eq_2)
next
  fix k :: nat
  assume k: "k < 3"
    and a: "retried gen k \<and> gen k = Raises ex \<and> \<not> transient (lower (str ex))
            \<and> \<not> unsupported_mime (lower (str ex))"
  from invoke_after_retries [of k gen inp cfg et] k a
  show "invoke gen inp cfg et = (Raise ex, backoff inp cfg k @ [GenerateContent inp cfg])"
    by simp
qed

theorem invoke_retry_policy_witness:
  "retried (script [Raises quota_error, Raises quota_error] (Returns ok_response)) 2
   \<and> \<not> no_candidates ok_response
   \<and> invoke (script [Raises quota_error, Raises quota_error] (Returns ok_response))
        [] None None =
       (Break ok_response,
        [GenerateContent [] None, Sleep 2, GenerateContent [] None, Sleep 2,
         GenerateContent [] None])
   \<and> (\<exists>evs. snd (invoke (script [Raises quota_error, Raises quota_error] (Returns ok_response))
                    [] None None) = backoff [] None 2 @ evs
            \<and> take 1 evs = [GenerateContent [] None])
   \<and> retried (script [Raises quota_error] (Raises internal_error)) 1
   \<and> \<not> transient (lower (str internal_error))
   \<and> \<not> unsupported_mime (lower (str internal_error))
   \<and> invoke (script [Raises quota_error] (Raises internal_error)) [] None None =
       (Raise internal_error, [GenerateContent [] None, Sleep 2, GenerateContent [] None])"
proof -
  let ?g = "script [Raises quota_error, Raises quota_error] (Returns ok_response)"
  let ?h = "script [Raises quota_error] (Raises internal_error)"
  have g: "retryable (?g 0)" "retryable (?g 1)" "?g 2 = Returns ok_response"
    by (simp_all add: script_def retryable_quota)
  have ok: "\<not> no_candidates ok_response"
    by (simp add: ok_response_def)
  have g2: "retried ?g 2"
    using g by (simp add: retried_2)
  have h: "retried ?h 1" "?h 1 = Raises internal_error"
    using retried_Suc [of ?h 0] by (simp_all add: script_def retryable_quota retried_0)
  have ie: "\<not> transient (lower (str internal_error))"
    "\<not> unsupported_mime (lower (str internal_error))"
    by (simp_all add: lower_literals signatures)
  note G = invoke_retry_policy [of ?g "[]" None None ok_response internal_error]
  note H = invoke_retry_policy [of ?h "[]" None None ok_response internal_error]
  from G g ok have c3: "invoke ?g [] None None =
       (Break ok_response,
        [GenerateContent [] None, Sleep 2, GenerateContent [] None, Sleep 2,
         GenerateContent [] None])"
    by blast
  from G have "\<forall>k<3. retried ?g (Suc k) \<longrightarrow>
         (\<exists>evs. snd (invoke ?g [] None None) = backoff [] None (Suc k) @ evs
                \<and> (k < 2 \<longrightarrow> take 1 evs = [GenerateContent [] None]))"
    by blast
  from this [rule_format, of 1] g2
  have c2: "\<exists>evs. snd (invoke ?g [] None None) = backoff [] None 2 @ evs
            \<and> take 1 evs = [GenerateContent [] None]"
    by (simp add: numeral_2_eq_2)
  from H have "\<forall>k<3. retried ?h k \<and> ?h k = Raises internal_error
               \<and> \<not> transient (lower (str internal_error))
               \<and> \<not> unsupported_mime (lower (str internal_error)) \<longrightarrow>
         invoke ?h [] None None = (Raise internal_error, backoff [] None k @ [GenerateContent [] None])"
    by blast
  from this [rule_format, of 1] h ie
  have c4: "invoke ?h [] None None =
       (Raise internal_error, [GenerateContent [] None, Sleep 2, GenerateContent [] None])"
    by (simp add: backoff_def)
  from g2 ok c3 c2 h(1) ie c4 show ?thesis by blast
qed

text \<open>
  C1, as the claim states it, fails: an error whose lowercased message contains "403" is
  not followed by a sleep and a second call when the message is also an unsupported-MIME
  signature, because line 96 is tested before line 101.
\<close>

theorem transient_signature_not_retried:
  "transient (lower (str mime_403_error))
   \<and> invoke (script [] (Raises mime_403_error)) [] None None =
       (Return, [GenerateContent [] None,
                 EditText ''Invalid file type. Please try again.'' None])"
  by (simp add: invoke_def script_def upt_rec lower_literals signatures)


text \<open>
  C2. After three transient errors no fourth call is made, but what reaches the caller is
  not the last transient error: \<open>raise e\<close> in the \<open>else\<close> branch of the \<open>for\<close> reads
  \<open>e\<close> after the \<open>except\<close> clause has deleted it, so an \<open>UnboundLocalError\<close> is raised.
  Here every call raises the quota error.
\<close>

theorem exhausted_retries_raise_unbound_local:
  "invoke (script [] (Raises quota_error)) [] None None =
     (Raise (unbound_local ''e''),
      [GenerateContent [] None, Sleep 2, GenerateContent [] None, Sleep 2,
       GenerateContent [] None, Sleep 2])
   \<and> unbound_local ''e'' \<noteq> quota_error"
proof -
  have "retried (script [] (Raises quota_error)) 3"
    by (simp add: retried_3 script_def retryable_quota)
  from invoke_exhausted [OF this, of "[]" None None] show ?thesis
    by (simp add: backoff_def numeral_3_eq_3 unbound_local_def quota_error_def)
qed


text \<open>
  C6. When a call raises an error whose message is an unsupported-MIME signature, the
  loop ends with the edit "Invalid file type. Please try again." exactly when no expected
  category was given, and raises the same error again otherwise; in both cases that call
  is the last one.
\<close>

theorem unsupported_mime_aborts:
  assumes "k < 3" and "retried gen k" and "gen k = Raises ex"
    and "unsupported_mime (lower (str ex))"
  shows "invoke gen inp cfg et =
           (if et = None
            then (Return, backoff inp cfg k
                    @ [GenerateContent inp cfg,
                       EditText ''Invalid file type. Please try again.'' None])
            else (Raise ex, backoff inp cfg k @ [GenerateContent inp cfg]))"
  using invoke_after_retries [OF assms(1,2), of inp cfg et] assms(3,4) by simp

theorem unsupported_mime_aborts_witness:
  "(1::nat) < 3 \<and> retried (script [Raises quota_error] (Raises mime_error)) 1
   \<and> unsupported_mime (lower (str mime_error))
   \<and> invoke (script [Raises quota_error] (Raises mime_error)) [] None None =
       (Return, [GenerateContent [] None, Sleep 2, GenerateContent [] None,
                 EditText ''Invalid file type. Please try again.'' None])
   \<and> invoke (script [Raises quota_error] (Raises mime_error)) [] None (Some ''image'') =
       (Raise mime_error, [GenerateContent [] None, Sleep 2, GenerateContent [] None])"
proof -
  let ?g = "script [Raises quota_error] (Raises mime_error)"
  have k: "(1::nat) < 3" by simp
  have r: "retried ?g 1"
    using retried_Suc [of ?g 0] by (simp add: script_def retryable_quota retried_0)
  have g: "?g 1 = Raises mime_error" by (simp add: script_def)
  have m: "unsupported_mime (lower (str mime_error))"
    by (simp add: lower_literals signatures)
  from unsupported_mime_aborts [OF k r g m, of "[]" None None]
       unsupported_mime_aborts [OF k r g m, of "[]" None "Some ''image''"] k r m
  show ?thesis by (simp add: backoff_def)
qed



section \<open>The inference invoker: an answer without candidates\<close>

lemma guarded_Return:
  assumes "prepare_input_data w reply fp prompt = Some (Inr inp, evs0)"
    and "invoke (generate_content w) inp (if cook then Some COOK_GEN_CONFIG else None) et
           = (Return, evs1)"
  shows "guarded w reply fp fs prompt sp cook et =
           Some (Inr (), evs0 @ evs1 @ fst (cleanup w fp fs), snd (cleanup w fp fs))"
  using assms by (simp add: guarded_def try_body_def split_def Let_def)


text \<open>
  C7. When a call returns and the candidate list is empty, \<open>None\<close> or missing, the message
  is edited to "Could not generate response." and the handler returns: no further call, no
  reply, and neither \<open>except\<close> clause runs; only the \<open>finally\<close> clause follows.
\<close>

theorem empty_candidates_halt:
  assumes "k < 3" and "retried (generate_content w) k"
    and "generate_content w k = Returns r" and "no_candidates r"
    and "prepare_input_data w reply fp prompt = Some (Inr inp, evs0)"
    and "cfg = (if cook then Some COOK_GEN_CONFIG else None)"
  shows "invoke (generate_content w) inp cfg et =
           (Return, backoff inp cfg k
              @ [GenerateContent inp cfg, EditText ''Could not generate response.'' None])
         \<and> guarded w reply fp fs prompt sp cook et =
             Some (Inr (),
                   evs0 @ (backoff inp cfg k
                     @ [GenerateContent inp cfg, EditText ''Could not generate response.'' None])
                     @ fst (cleanup w fp fs),
                   snd (cleanup w fp fs))"
proof -
  have i: "invoke (generate_content w) inp cfg et =
           (Return, backoff inp cfg k
              @ [GenerateContent inp cfg, EditText ''Could not generate response.'' None])"
    using invoke_after_retries [OF assms(1,2), of inp cfg et] assms(3,4) by simp
  with guarded_Return [OF assms(5), of cook et _ fs sp] assms(6) show ?thesis by simp
qed

lemma prepare_photo_demo:
  "prepare_input_data (demo_world p f g rm) photo_reply p prompt =
     Some (Inr [Text prompt, DecodedImage (Image p)], [ImageOpen p, ImageVerify, ImageOpen p])"
  by (simp add: prepare_input_data_def demo_world_def photo_reply_def no_media_def)

theorem empty_candidates_halt_witness:
  "(1::nat) < 3
   \<and> retried (script [Raises quota_error] (Returns empty_response)) 1
   \<and> no_candidates empty_response
   \<and> guarded (demo_world ''/tmp/a.jpg'' ''ACTIVE''
                (script [Raises quota_error] (Returns empty_response)) None)
        photo_reply ''/tmp/a.jpg'' {''/tmp/a.jpg''} ''Describe'' False False None =
       Some (Inr (),
             [ImageOpen ''/tmp/a.jpg'', ImageVerify, ImageOpen ''/tmp/a.jpg'',
              GenerateContent [Text ''Describe'', DecodedImage (Image ''/tmp/a.jpg'')] None,
              Sleep 2,
              GenerateContent [Text ''Describe'', DecodedImage (Image ''/tmp/a.jpg'')] None,
              EditText ''Could not generate response.'' None,
              Remove ''/tmp/a.jpg''],
             {})"
proof -
  let ?g = "script [Raises quota_error] (Returns empty_response)"
  let ?w = "demo_world ''/tmp/a.jpg'' ''ACTIVE'' ?g None"
  have gc: "generate_content ?w = ?g" by (simp add: demo_world_def)
  have k: "(1::nat) < 3" by simp
  have r: "retried (generate_content ?w) 1"
    using retried_Suc [of ?g 0] by (simp add: gc script_def retryable_quota retried_0)
  have g: "generate_content ?w 1 = Returns empty_response" by (simp add: gc script_def)
  have n: "no_candidates empty_response" by (simp add: empty_response_def)
  have c: "cleanup ?w ''/tmp/a.jpg'' {''/tmp/a.jpg''} = ([Remove ''/tmp/a.jpg''], {})"
    by (simp add: cleanup_def demo_world_def)
  from empty_candidates_halt [where cfg = None and cook = False and fs = "{''/tmp/a.jpg''}"
         and et = None and sp = False, OF k r g n prepare_photo_demo] r n c gc
  show ?thesis by (simp add: backoff_def)
qed



section \<open>Upload and poll\<close>

lemma polls_0: "polls w fp n 0 = []"
  by (simp add: polls_def)

lemma polls_Suc:
  "polls w fp n (Suc k) = Sleep 5 # GetFile (name (observed w fp n)) # polls w fp (Suc n) k"
  by (simp add: polls_def upt_conv_Cons del: upt_Suc)

lemma poll_run:
  "\<forall>j<k. state_name (observed w fp (n + j)) = ''PROCESSING'' \<Longrightarrow>
   state_name (observed w fp (n + k)) \<noteq> ''PROCESSING'' \<Longrightarrow>
   poll (genai_get_file w) n (observed w fp n) evs =
     Some (observed w fp (n + k), evs @ polls w fp n k)"
proof (induction k arbitrary: n evs)
  case 0
  then show ?case by (simp add: poll.simps polls_0)
next
  case (Suc k)
  from Suc.prems(1) have p: "state_name (observed w fp n) = ''PROCESSING''"
    by (metis add.right_neutral zero_less_Suc)
  have a: "\<forall>j<k. state_name (observed w fp (Suc n + j)) = ''PROCESSING''"
    using Suc.prems(1) by (metis Suc_less_eq add_Suc_right add_Suc)
  have b: "state_name (observed w fp (Suc n + k)) \<noteq> ''PROCESSING''"
    using Suc.prems(2) by simp
  have "poll (genai_get_file w) n (observed w fp n) evs =
          poll (genai_get_file w) (Suc n) (observed w fp (Suc n))
            (evs @ [Sleep 5, GetFile (name (observed w fp n))])"
    using p by (subst poll.simps) simp
  also have "\<dots> = Some (observed w fp (Suc n + k),
                 (evs @ [Sleep 5, GetFile (name (observed w fp n))]) @ polls w fp (Suc n) k)"
    by (rule Suc.IH [OF a b])
  finally show ?case
    by (simp add: polls_Suc)
qed

lemma upload_file_observed:
  assumes "\<forall>j<k. state_name (observed w fp j) = ''PROCESSING''"
    and "state_name (observed w fp k) \<noteq> ''PROCESSING''"
  shows "upload_file w fp ft =
           Some (if state_name (observed w fp k) = ''FAILED''
                 then Inl (ValueError (capitalize ft @ '' failed to process''))
                 else Inr (observed w fp k),
                 UploadFile fp # polls w fp 0 k)"
  using poll_run [of k w fp 0 "[UploadFile fp]"] assms
  by (simp add: upload_file_def)

lemma demo_observed:
  "state_name (observed (demo_world p final g rm) fp 0) = ''PROCESSING''"
  "state_name (observed (demo_world p final g rm) fp 1) = ''PROCESSING''"
  "observed (demo_world p final g rm) fp 2 = UploadedFile ''files/abc'' final"
  "name (observed (demo_world p final g rm) fp 0) = ''files/abc''"
  "name (observed (demo_world p final g rm) fp 1) = ''files/abc''"
  by (simp_all add: demo_world_def script_def numeral_2_eq_2)

lemma demo_polls:
  "polls (demo_world p final g rm) fp 0 2 =
     [Sleep 5, GetFile ''files/abc'', Sleep 5, GetFile ''files/abc'']"
  using demo_observed(4,5) [of p final g rm fp]
  by (simp add: numeral_2_eq_2 polls_Suc polls_0)

lemma demo_processing:
  "\<forall>j<2. state_name (observed (demo_world p final g rm) fp j) = ''PROCESSING''"
  using demo_observed(1,2) [of p final g rm fp]
  by (auto simp: less_Suc_eq numeral_2_eq_2)

lemma upload_demo:
  assumes "final \<noteq> ''PROCESSING''"
  shows "upload_file (demo_world p final g rm) fp ft =
           Some (if final = ''FAILED''
                 then Inl (ValueError (capitalize ft @ '' failed to process''))
                 else Inr (UploadedFile ''files/abc'' final),
                 [UploadFile fp, Sleep 5, GetFile ''files/abc'', Sleep 5, GetFile ''files/abc''])"
  using upload_file_observed [OF demo_processing, of p final g rm fp ft] assms
  by (simp add: demo_observed demo_polls)


text \<open>
  C5. While the file object is in state \<open>PROCESSING\<close> the loop sleeps five seconds and
  fetches it again. Once it is seen in another state the loop ends: in state \<open>FAILED\<close>
  a \<open>ValueError\<close> named after the capitalized category is raised, in any other state
  (\<open>READY\<close> among them) that file object is returned. The file is uploaded once and
  nothing is done after the last poll.
\<close>

theorem upload_file_polls:
  assumes "\<forall>j<k. state_name (observed w fp j) = ''PROCESSING''"
    and "state_name (observed w fp k) \<noteq> ''PROCESSING''"
  shows "upload_file w fp ft =
           Some (if state_name (observed w fp k) = ''FAILED''
                 then Inl (ValueError (capitalize ft @ '' failed to process''))
                 else Inr (observed w fp k),
                 UploadFile fp # polls w fp 0 k)"
  using assms by (rule upload_file_observed)

theorem upload_file_polls_witness:
  "state_name (observed (demo_world ''/tmp/a.mp4'' ''READY'' (script [] (Returns ok_response)) None)
      ''/tmp/a.mp4'' 0) = ''PROCESSING''
   \<and> state_name (observed (demo_world ''/tmp/a.mp4'' ''READY'' (script [] (Returns ok_response)) None)
      ''/tmp/a.mp4'' 1) = ''PROCESSING''
   \<and> state_name (observed (demo_world ''/tmp/a.mp4'' ''READY'' (script [] (Returns ok_response)) None)
      ''/tmp/a.mp4'' 2) = ''READY''
   \<and> upload_file (demo_world ''/tmp/a.mp4'' ''READY'' (script [] (Returns ok_response)) None)
        ''/tmp/a.mp4'' ''video'' =
       Some (Inr (UploadedFile ''files/abc'' ''READY''),
             [UploadFile ''/tmp/a.mp4'', Sleep 5, GetFile ''files/abc'', Sleep 5,
              GetFile ''files/abc''])
   \<and> upload_file (demo_world ''/tmp/a.mp4'' ''FAILED'' (script [] (Returns ok_response)) None)
        ''/tmp/a.mp4'' ''video'' =
       Some (Inl (ValueError ''Video failed to process''),
             [UploadFile ''/tmp/a.mp4'', Sleep 5, GetFile ''files/abc'', Sleep 5,
              GetFile ''files/abc''])"
proof -
  let ?g = "script [] (Returns ok_response)"
  let ?r = "demo_world ''/tmp/a.mp4'' ''READY'' ?g None"
  let ?f = "demo_world ''/tmp/a.mp4'' ''FAILED'' ?g None"
  have r: "state_name (observed ?r ''/tmp/a.mp4'' 2) \<noteq> ''PROCESSING''"
    and f: "state_name (observed ?f ''/tmp/a.mp4'' 2) \<noteq> ''PROCESSING''"
    by (simp_all add: demo_observed)
  have c: "capitalize ''video'' = ''Video''"
    by (simp add: upper_char_def lower_def lower_char_def)
  have o: "state_name (observed ?r ''/tmp/a.mp4'' 0) = ''PROCESSING''"
    "state_name (observed ?r ''/tmp/a.mp4'' 1) = ''PROCESSING''"
    by (rule demo_observed)+
  have o2: "state_name (observed ?r ''/tmp/a.mp4'' 2) = ''READY''"
    using demo_observed(3) [of "''/tmp/a.mp4''" "''READY''" ?g None "''/tmp/a.mp4''"] by simp
  from upload_file_polls [OF demo_processing r, of "''video''"]
       upload_file_polls [OF demo_processing f, of "''video''"] c
  have u: "upload_file ?r ''/tmp/a.mp4'' ''video'' =
       Some (Inr (UploadedFile ''files/abc'' ''READY''),
             [UploadFile ''/tmp/a.mp4'', Sleep 5, GetFile ''files/abc'', Sleep 5,
              GetFile ''files/abc''])"
    "upload_file ?f ''/tmp/a.mp4'' ''video'' =
       Some (Inl (ValueError ''Video failed to process''),
             [UploadFile ''/tmp/a.mp4'', Sleep 5, GetFile ''files/abc'', Sleep 5,
              GetFile ''files/abc''])"
    by (simp_all add: demo_observed demo_polls)
  from o o2 u show ?thesis by blast
qed



section \<open>The attachment classifier\<close>

text \<open>
  C4, as the code has it. Without an expected category the message is accepted if and only
  if it carries a photo, audio, voice, video, video note or document.
\<close>

theorem valid_file_without_category:
  "valid_file reply None \<longleftrightarrow>
     (photo reply \<noteq> None \<or> audio reply \<noteq> None \<or> voice reply \<noteq> None
      \<or> video reply \<noteq> None \<or> video_note reply \<noteq> None \<or> document reply \<noteq> None)"
  by (simp add: valid_file_def)

theorem valid_file_without_category_witness:
  "valid_file voice_reply None \<and> \<not> valid_file no_media None"
  using valid_file_without_category [of voice_reply] valid_file_without_category [of no_media]
  by (simp add: voice_reply_def no_media_def)


text \<open>
  C4, as the claim states it, fails: a message that carries only a video note, which is
  none of photo, audio, voice, video and document, is accepted.
\<close>

theorem video_note_is_valid:
  "valid_file video_note_reply None
   \<and> photo video_note_reply = None \<and> audio video_note_reply = None
   \<and> voice video_note_reply = None \<and> video video_note_reply = None
   \<and> document video_note_reply = None"
  by (simp add: valid_file_def video_note_reply_def no_media_def)



section \<open>The input materializer\<close>

lemma endswith_pdf:
  "endswith ''/tmp/a.pdf'' ''.pdf''" "\<not> endswith ''/tmp/a.txt'' ''.pdf''"
  by (simp_all add: endswith_def)


text \<open>
  C3. The first rule that matches decides, in the order photo, video or video note, audio
  or voice, document whose path ends in ".pdf", other document. A photo whose image opens
  and verifies gives \<open>[prompt, image]\<close>; an upload that returns a handle gives
  \<open>[prompt, handle]\<close> for video, video note and PDF, and \<open>[handle, prompt]\<close> for audio,
  voice and any other document; the uploads are made as "video", "audio", "PDF" and
  "document". With no attachment at all a \<open>ValueError\<close> "Unsupported file type" is raised.
\<close>

theorem prepare_input_data_dispatch:
  "(photo reply \<noteq> None \<and> Image_open w fp = Inr img \<and> verify w img = None \<longrightarrow>
      prepare_input_data w reply fp prompt =
        Some (Inr [Text prompt, DecodedImage img], [ImageOpen fp, ImageVerify, ImageOpen fp]))
   \<and> (photo reply = None \<and> (video reply \<noteq> None \<or> video_note reply \<noteq> None)
        \<and> upload_file w fp ''video'' = Some (Inr h, evs) \<longrightarrow>
      prepare_input_data w reply fp prompt = Some (Inr [Text prompt, Handle h], evs))
   \<and> (photo reply = None \<and> video reply = None \<and> video_note reply = None
        \<and> (audio reply \<noteq> None \<or> voice reply \<noteq> None)
        \<and> upload_file w fp ''audio'' = Some (Inr h, evs) \<longrightarrow>
      prepare_input_data w reply fp prompt = Some (Inr [Handle h, Text prompt], evs))
   \<and> (photo reply = None \<and> video reply = None \<and> video_note reply = None
        \<and> audio reply = None \<and> voice reply = None
        \<and> document reply \<noteq> None \<and> endswith fp ''.pdf''
        \<and> upload_file w fp ''PDF'' = Some (Inr h, evs) \<longrightarrow>
      prepare_input_data w reply fp prompt = Some (Inr [Text prompt, Handle h], evs))
   \<and> (photo reply = None \<and> video reply = None \<and> video_note reply = None
        \<and> audio reply = None \<and> voice reply = None
        \<and> document reply \<noteq> None \<and> \<not> endswith fp ''.pdf''
        \<and> upload_file w fp ''document'' = Some (Inr h, evs) \<longrightarrow>
      prepare_input_data w reply fp prompt = Some (Inr [Handle h, Text prompt], evs))
   \<and> (photo reply = None \<and> video reply = None \<and> video_note reply = None
        \<and> audio reply = None \<and> voice reply = None \<and> document reply = None \<longrightarrow>
      prepare_input_data w reply fp prompt =
        Some (Inl (ValueError ''Unsupported file type''), []))"
  by (simp add: prepare_input_data_def)


lemma upload_active:
  "upload_file (demo_world p ''ACTIVE'' g rm) fp ft =
     Some (Inr (UploadedFile ''files/abc'' ''ACTIVE''),
           [UploadFile fp, Sleep 5, GetFile ''files/abc'', Sleep 5, GetFile ''files/abc''])"
  using upload_demo [of "''ACTIVE''" p g rm fp ft] by simp

theorem prepare_input_data_dispatch_witness:
  "prepare_input_data (demo_world ''/tmp/a'' ''ACTIVE'' (script [] (Returns ok_response)) None)
     photo_reply ''/tmp/a.jpg'' ''Describe'' =
     Some (Inr [Text ''Describe'', DecodedImage (Image ''/tmp/a.jpg'')],
           [ImageOpen ''/tmp/a.jpg'', ImageVerify, ImageOpen ''/tmp/a.jpg''])
   \<and> prepare_input_data (demo_world ''/tmp/a'' ''ACTIVE'' (script [] (Returns ok_response)) None)
       video_note_reply ''/tmp/a.mp4'' ''Describe'' =
       Some (Inr [Text ''Describe'', Handle (UploadedFile ''files/abc'' ''ACTIVE'')],
             [UploadFile ''/tmp/a.mp4'', Sleep 5, GetFile ''files/abc'', Sleep 5,
              GetFile ''files/abc''])
   \<and> prepare_input_data (demo_world ''/tmp/a'' ''ACTIVE'' (script [] (Returns ok_response)) None)
       voice_reply ''/tmp/a.ogg'' ''Describe'' =
       Some (Inr [Handle (UploadedFile ''files/abc'' ''ACTIVE''), Text ''Describe''],
             [UploadFile ''/tmp/a.ogg'', Sleep 5, GetFile ''files/abc'', Sleep 5,
              GetFile ''files/abc''])
   \<and> prepare_input_data (demo_world ''/tmp/a'' ''ACTIVE'' (script [] (Returns ok_response)) None)
       document_reply ''/tmp/a.pdf'' ''Describe'' =
       Some (Inr [Text ''Describe'', Handle (UploadedFile ''files/abc'' ''ACTIVE'')],
             [UploadFile ''/tmp/a.pdf'', Sleep 5, GetFile ''files/abc'', Sleep 5,
              GetFile ''files/abc''])
   \<and> prepare_input_data (demo_world ''/tmp/a'' ''ACTIVE'' (script [] (Returns ok_response)) None)
       document_reply ''/tmp/a.txt'' ''Describe'' =
       Some (Inr [Handle (UploadedFile ''files/abc'' ''ACTIVE''), Text ''Describe''],
             [UploadFile ''/tmp/a.txt'', Sleep 5, GetFile ''files/abc'', Sleep 5,
              GetFile ''files/abc''])
   \<and> prepare_input_data (demo_world ''/tmp/a'' ''ACTIVE'' (script [] (Returns ok_response)) None)
       no_media ''/tmp/a.bin'' ''Describe'' =
       Some (Inl (ValueError ''Unsupported file type''), [])"
proof -
  let ?w = "demo_world ''/tmp/a'' ''ACTIVE'' (script [] (Returns ok_response)) None"
  let ?h = "UploadedFile ''files/abc'' ''ACTIVE''"
  have img: "Image_open ?w ''/tmp/a.jpg'' = Inr (Image ''/tmp/a.jpg'')"
    "verify ?w (Image ''/tmp/a.jpg'') = None"
    by (simp_all add: demo_world_def)
  have a: "prepare_input_data ?w photo_reply ''/tmp/a.jpg'' ''Describe'' =
     Some (Inr [Text ''Describe'', DecodedImage (Image ''/tmp/a.jpg'')],
           [ImageOpen ''/tmp/a.jpg'', ImageVerify, ImageOpen ''/tmp/a.jpg''])"
    using prepare_input_data_dispatch [of photo_reply ?w "''/tmp/a.jpg''" "Image ''/tmp/a.jpg''"
        "''Describe''"] img
    by (simp add: photo_reply_def no_media_def)
  have b: "prepare_input_data ?w video_note_reply ''/tmp/a.mp4'' ''Describe'' =
       Some (Inr [Text ''Describe'', Handle ?h],
             [UploadFile ''/tmp/a.mp4'', Sleep 5, GetFile ''files/abc'', Sleep 5,
              GetFile ''files/abc''])"
    using prepare_input_data_dispatch [of video_note_reply ?w "''/tmp/a.mp4''" _ "''Describe''" ?h
        "[UploadFile ''/tmp/a.mp4'', Sleep 5, GetFile ''files/abc'', Sleep 5,
          GetFile ''files/abc'']"]
    by (simp add: video_note_reply_def no_media_def upload_active)
  have c: "prepare_input_data ?w voice_reply ''/tmp/a.ogg'' ''Describe'' =
       Some (Inr [Handle ?h, Text ''Describe''],
             [UploadFile ''/tmp/a.ogg'', Sleep 5, GetFile ''files/abc'', Sleep 5,
              GetFile ''files/abc''])"
    using prepare_input_data_dispatch [of voice_reply ?w "''/tmp/a.ogg''" _ "''Describe''" ?h
        "[UploadFile ''/tmp/a.ogg'', Sleep 5, GetFile ''files/abc'', Sleep 5,
          GetFile ''files/abc'']"]
    by (simp add: voice_reply_def no_media_def upload_active)
  have d: "prepare_input_data ?w document_reply ''/tmp/a.pdf'' ''Describe'' =
       Some (Inr [Text ''Describe'', Handle ?h],
             [UploadFile ''/tmp/a.pdf'', Sleep 5, GetFile ''files/abc'', Sleep 5,
              GetFile ''files/abc''])"
    using prepare_input_data_dispatch [of document_reply ?w "''/tmp/a.pdf''" _ "''Describe''" ?h
        "[UploadFile ''/tmp/a.pdf'', Sleep 5, GetFile ''files/abc'', Sleep 5,
          GetFile ''files/abc'']"]
    by (simp add: document_reply_def no_media_def upload_active endswith_pdf)
  have e: "prepare_input_data ?w document_reply ''/tmp/a.txt'' ''Describe'' =
       Some (Inr [Handle ?h, Text ''Describe''],
             [UploadFile ''/tmp/a.txt'', Sleep 5, GetFile ''files/abc'', Sleep 5,
              GetFile ''files/abc''])"
    using prepare_input_data_dispatch [of document_reply ?w "''/tmp/a.txt''" _ "''Describe''" ?h
        "[UploadFile ''/tmp/a.txt'', Sleep 5, GetFile ''files/abc'', Sleep 5,
          GetFile ''files/abc'']"]
    by (simp add: document_reply_def no_media_def upload_active endswith_pdf)
  have f: "prepare_input_data ?w no_media ''/tmp/a.bin'' ''Describe'' =
       Some (Inl (ValueError ''Unsupported file type''), [])"
    using prepare_input_data_dispatch [of no_media ?w "''/tmp/a.bin''" _ "''Describe''"]
    by (simp add: no_media_def)
  from a b c d e f show ?thesis by blast
qed



section \<open>The reply: chunks\<close>

lemma concat_slices:
  "0 < step \<Longrightarrow> length s \<le> n \<Longrightarrow>
   concat (map (\<lambda>i. slice s i (i + step)) (range_step a n step)) = drop a s"
proof (induction a n step rule: range_step.induct)
  case (1 start stop step)
  show ?case
  proof (cases "stop \<le> start")
    case True
    with 1 show ?thesis by (simp add: range_step.simps)
  next
    case False
    with 1 have "concat (map (\<lambda>i. slice s i (i + step)) (range_step (start + step) stop step))
                 = drop (start + step) s"
      by simp
    moreover have "slice s start (start + step) @ drop (start + step) s = drop start s"
      by (simp add: slice_def add.commute [of start step] drop_drop [symmetric]
            del: drop_drop)
    ultimately show ?thesis
      using False 1(2) by (subst range_step.simps) simp
  qed
qed

lemma range_step_bounds:
  "i \<in> set (range_step a n step) \<Longrightarrow> a \<le> i \<and> i < n"
proof (induction a n step rule: range_step.induct)
  case (1 start stop step)
  from 1(2) have ne: "\<not> (step = 0 \<or> stop \<le> start)"
    by (subst (asm) range_step.simps) (auto split: if_splits)
  with 1(2) have "i = start \<or> i \<in> set (range_step (start + step) stop step)"
    by (subst (asm) range_step.simps) simp
  with 1(1) ne show ?case by auto
qed

lemma ceil_step:
  assumes "0 < step" and "a < n"
  shows "Suc ((n - (a + step) + (step - 1)) div step) = (n - a + (step - 1)) div step"
proof -
  have key: "Suc (m div step) = (m + step) div step" for m :: nat
    using assms(1) div_add_self2 [of step m] by simp
  show ?thesis
  proof (cases "step \<le> n - a")
    case True
    then have e: "n - a + (step - 1) = (n - (a + step) + (step - 1)) + step"
      by simp
    from key [of "n - (a + step) + (step - 1)"] show ?thesis
      by (simp only: e)
  next
    case False
    then have z: "n - (a + step) = 0" by simp
    have e: "n - a + (step - 1) = (n - a - 1) + step"
      using assms by simp
    have d: "(n - a - 1) div step = 0" "(step - 1) div step = 0"
      using False assms(1) by simp_all
    have r: "(n - a - 1 + step) div step = Suc 0"
      by (simp only: key [symmetric] d)
    have l: "Suc ((n - (a + step) + (step - 1)) div step) = Suc 0"
      by (simp only: z d add_0_left)
    show ?thesis
      by (simp only: l e r)
  qed
qed

lemma length_range_step:
  "0 < step \<Longrightarrow> length (range_step a n step) = (n - a + (step - 1)) div step"
proof (induction a n step rule: range_step.induct)
  case (1 start stop step)
  show ?case
  proof (cases "stop \<le> start")
    case True
    with 1(2) show ?thesis by (simp add: range_step.simps)
  next
    case False
    with 1 have "length (range_step (start + step) stop step)
                 = (stop - (start + step) + (step - 1)) div step"
      by simp
    moreover have "Suc ((stop - (start + step) + (step - 1)) div step)
                   = (stop - start + (step - 1)) div step"
      using False 1(2) by (intro ceil_step) simp_all
    ultimately show ?thesis
      using False 1(2) by (subst range_step.simps) simp
  qed
qed

lemma length_chunks: "length (chunks s) = (length s + 3999) div 4000"
  by (simp add: chunks_def length_range_step)

lemma concat_chunks: "concat (chunks s) = s"
  using concat_slices [of 4000 s "length s" 0] by (simp add: chunks_def)

lemma chunk_size: "c \<in> set (chunks s) \<Longrightarrow> c \<noteq> [] \<and> length c \<le> 4000"
  by (auto simp: chunks_def slice_def dest: range_step_bounds)


text \<open>
  C8. The chunks are consecutive pieces of the result text, none empty and none longer
  than 4000 characters; a text of 8500 characters gives exactly three. A text longer than
  4000 characters is sent as one markdown reply per chunk and the placeholder message is
  deleted afterwards; otherwise the placeholder message is edited to the text, with
  markdown.
\<close>

theorem send_result_chunks:
  "concat (chunks s) = s
   \<and> (\<forall>c \<in> set (chunks s). c \<noteq> [] \<and> length c \<le> 4000)
   \<and> (length s = 8500 \<longrightarrow> length (chunks s) = 3)
   \<and> (4000 < length s \<longrightarrow>
        send_result s = map (\<lambda>c. ReplyText c (Some MARKDOWN)) (chunks s) @ [Delete])
   \<and> (length s \<le> 4000 \<longrightarrow> send_result s = [EditText s (Some MARKDOWN)])"
  by (simp add: concat_chunks chunk_size length_chunks send_result_def)

lemma chunks_short: "chunks ''Answer: Hello'' = [''Answer: Hello'']"
  by (simp add: chunks_def slice_def range_step.simps [of 0] range_step.simps [of 4000])

lemma length_long_text: "length long_text = 8500"
  by (simp add: long_text_def)

theorem send_result_chunks_witness:
  "length long_text = 8500
   \<and> length (chunks long_text) = 3
   \<and> send_result long_text =
       map (\<lambda>c. ReplyText c (Some MARKDOWN)) (chunks long_text) @ [Delete]
   \<and> ''Answer: Hello'' \<in> set (chunks ''Answer: Hello'')
   \<and> send_result ''Answer: Hello'' = [EditText ''Answer: Hello'' (Some MARKDOWN)]"
proof -
  note L = send_result_chunks [of long_text]
  note S = send_result_chunks [of "''Answer: Hello''"]
  have l: "length long_text = 8500" by (rule length_long_text)
  from L l have a: "length (chunks long_text) = 3" by blast
  from L l have b: "send_result long_text =
       map (\<lambda>c. ReplyText c (Some MARKDOWN)) (chunks long_text) @ [Delete]"
    by simp
  have m: "''Answer: Hello'' \<in> set (chunks ''Answer: Hello'')"
    by (simp add: chunks_short)
  from S have c: "send_result ''Answer: Hello'' = [EditText ''Answer: Hello'' (Some MARKDOWN)]"
    by simp
  from l a b m c show ?thesis by blast
qed



section \<open>The reply: an answer without text\<close>

lemma try_body_Break:
  assumes "prepare_input_data w reply fp prompt = Some (Inr inp, evs0)"
    and "invoke (generate_content w) inp (if cook then Some COOK_GEN_CONFIG else None) et
           = (Break r, evs1)"
  shows "try_body w reply fp prompt sp cook et =
           Some (Inr (), evs0 @ evs1 @ send_result (result_text prompt sp r))"
  using assms by (simp add: try_body_def)

lemma answer_default:
  "resp_text r = Absent \<or> resp_text r = PyNone \<or> resp_text r = Value [] \<Longrightarrow>
   answer r = ''No content generated.''"
  by (cases r) auto


text \<open>
  C10. When the response has candidates and its \<open>text\<close> attribute is missing, \<open>None\<close> or
  the empty string, the reply body is "Answer: No content generated.", after a line
  "Prompt: ..." exactly when \<open>show_prompt\<close> is set, which the commands do only when a
  prompt follows the command name. Without that line the placeholder message is edited to
  "Answer: No content generated.".
\<close>

theorem no_content_generated:
  assumes "resp_text r = Absent \<or> resp_text r = PyNone \<or> resp_text r = Value []"
  shows "result_text prompt sp r =
           (if sp then ''Prompt: '' @ prompt @ [CHR 0x0A] else [])
             @ ''Answer: No content generated.''
         \<and> (\<not> sp \<longrightarrow> send_result (result_text prompt sp r) =
                [EditText ''Answer: No content generated.'' (Some MARKDOWN)])
         \<and> (k < 3 \<and> retried (generate_content w) k \<and> generate_content w k = Returns r
              \<and> \<not> no_candidates r
              \<and> prepare_input_data w reply fp prompt = Some (Inr inp, evs0) \<longrightarrow>
            try_body w reply fp prompt sp cook et =
              Some (Inr (),
                    evs0 @ (backoff inp (if cook then Some COOK_GEN_CONFIG else None) k
                      @ [GenerateContent inp (if cook then Some COOK_GEN_CONFIG else None)])
                      @ send_result ((if sp then ''Prompt: '' @ prompt @ [CHR 0x0A] else [])
                                       @ ''Answer: No content generated.'')))"
proof (intro conjI impI)
  show t: "result_text prompt sp r =
           (if sp then ''Prompt: '' @ prompt @ [CHR 0x0A] else [])
             @ ''Answer: No content generated.''"
    using answer_default [OF assms] by (simp add: result_text_def)
  show "send_result (result_text prompt sp r) =
          [EditText ''Answer: No content generated.'' (Some MARKDOWN)]" if "\<not> sp"
    using that answer_default [OF assms] by (simp add: result_text_def send_result_def)
  assume a: "k < 3 \<and> retried (generate_content w) k \<and> generate_content w k = Returns r
              \<and> \<not> no_candidates r
              \<and> prepare_input_data w reply fp prompt = Some (Inr inp, evs0)"
  let ?cfg = "if cook then Some COOK_GEN_CONFIG else None"
  from a have "invoke (generate_content w) inp ?cfg et =
                 (Break r, backoff inp ?cfg k @ [GenerateContent inp ?cfg])"
    using invoke_after_retries [of k "generate_content w" inp ?cfg et] by simp
  with a have "try_body w reply fp prompt sp cook et =
           Some (Inr (), evs0 @ (backoff inp ?cfg k @ [GenerateContent inp ?cfg])
                   @ send_result (result_text prompt sp r))"
    by (intro try_body_Break) simp_all
  then show "try_body w reply fp prompt sp cook et =
              Some (Inr (),
                    evs0 @ (backoff inp ?cfg k @ [GenerateContent inp ?cfg])
                      @ send_result ((if sp then ''Prompt: '' @ prompt @ [CHR 0x0A] else [])
                                       @ ''Answer: No content generated.''))"
    by (simp only: t)
qed

theorem no_content_generated_witness:
  "resp_text silent_response = PyNone
   \<and> \<not> no_candidates silent_response
   \<and> result_text ''Describe'' True silent_response =
       ''Prompt: Describe'' @ [CHR 0x0A] @ ''Answer: No content generated.''
   \<and> send_result (result_text ''Describe'' False silent_response) =
       [EditText ''Answer: No content generated.'' (Some MARKDOWN)]
   \<and> try_body (demo_world ''/tmp/a.jpg'' ''ACTIVE'' (script [] (Returns silent_response)) None)
        photo_reply ''/tmp/a.jpg'' ''Describe'' False False None =
       Some (Inr (),
             [ImageOpen ''/tmp/a.jpg'', ImageVerify, ImageOpen ''/tmp/a.jpg'',
              GenerateContent [Text ''Describe'', DecodedImage (Image ''/tmp/a.jpg'')] None,
              EditText ''Answer: No content generated.'' (Some MARKDOWN)])"
proof -
  let ?g = "script [] (Returns silent_response)"
  let ?w = "demo_world ''/tmp/a.jpg'' ''ACTIVE'' ?g None"
  have t: "resp_text silent_response = PyNone" and c: "\<not> no_candidates silent_response"
    by (simp_all add: silent_response_def)
  then have h: "resp_text silent_response = Absent \<or> resp_text silent_response = PyNone
                \<or> resp_text silent_response = Value []"
    by simp
  have g: "generate_content ?w 0 = Returns silent_response"
    by (simp add: demo_world_def script_def)
  note T = no_content_generated [OF h, of "''Describe''" True 0 ?w photo_reply "''/tmp/a.jpg''"]
  note F = no_content_generated [OF h, of "''Describe''" False 0 ?w photo_reply "''/tmp/a.jpg''"
             "[Text ''Describe'', DecodedImage (Image ''/tmp/a.jpg'')]"
             "[ImageOpen ''/tmp/a.jpg'', ImageVerify, ImageOpen ''/tmp/a.jpg'']" False None]
  from T [THEN conjunct1] have a: "result_text ''Describe'' True silent_response =
       ''Prompt: Describe'' @ [CHR 0x0A] @ ''Answer: No content generated.''"
    by simp
  from F [THEN conjunct2, THEN conjunct1] have b: "send_result (result_text ''Describe'' False silent_response) =
       [EditText ''Answer: No content generated.'' (Some MARKDOWN)]"
    by simp
  from F [THEN conjunct2, THEN conjunct2] g c prepare_photo_demo [of "''/tmp/a.jpg''" "''ACTIVE''" ?g None "''Describe''"]
  have d: "try_body ?w photo_reply ''/tmp/a.jpg'' ''Describe'' False False None =
       Some (Inr (),
             [ImageOpen ''/tmp/a.jpg'', ImageVerify, ImageOpen ''/tmp/a.jpg'',
              GenerateContent [Text ''Describe'', DecodedImage (Image ''/tmp/a.jpg'')] None,
              EditText ''Answer: No content generated.'' (Some MARKDOWN)])"
    by (simp add: retried_0 backoff_def send_result_def)
  from t c a b d show ?thesis by blast
qed

end
